theory Spec2Isabelle
  imports Main "HOL-Library.AList" "HOL-Library.Multiset"
begin

section \<open>Strings and JavaScript values\<close>

text \<open>
  Source texts are JavaScript strings, that is sequences of code units. They are modelled
  as \<^typ>\<open>string\<close>: one \<^typ>\<open>char\<close> is one code unit, which covers the code units
  below 256 (shader sources are ASCII).
\<close>

text \<open>\<^verbatim>\<open>c.charCodeAt(0)\<close> on a one-character string.\<close>

definition charCodeAt0 :: "char \<Rightarrow> nat" where
  "charCodeAt0 c = of_char c"

definition hexDigit :: "nat \<Rightarrow> char" where
  "hexDigit d = ''0123456789abcdef'' ! d"

text \<open>
  \<^verbatim>\<open>Number.prototype.toString(16)\<close> on a non-negative integer (the sum of code units stays
  far below $2^{53}$, where JavaScript numbers are exact).
\<close>

fun toString16 :: "nat \<Rightarrow> string" where
  "toString16 n =
     (if n < 16 then [hexDigit n] else toString16 (n div 16) @ [hexDigit (n mod 16)])"

declare toString16.simps [simp del]

section \<open>ShaderLib.hash\<close>

text \<open>
  \<^verbatim>\<open>
  hash(source) {
    return 'string' != typeof source ? null : String(source)
      .split('')
      .map((c) => c.charCodeAt(0))
      .reduce((a, b) => a + b, 0)
      .toString('16')
  }
  \<close>
  An argument that is not a string (\<^verbatim>\<open>null\<close>, \<^verbatim>\<open>undefined\<close>) is \<^const>\<open>None\<close>, and
  so is the result \<^verbatim>\<open>null\<close>.
\<close>

definition hash :: "string option \<Rightarrow> string option" where
  "hash source =
     (case source of
        None \<Rightarrow> None
      | Some s \<Rightarrow> Some (toString16 (foldl (\<lambda>a b. a + b) 0 (map charCodeAt0 s))))"

section \<open>JavaScript values and the Define Table\<close>

text \<open>
  The values a caller can hand to \<^verbatim>\<open>define\<close>: \<^verbatim>\<open>undefined\<close>, \<^verbatim>\<open>null\<close>, booleans,
  integral numbers and strings. (Fractional numbers and objects are not modelled.)
\<close>

datatype jsval = JUndefined | JNull | JBool bool | JNum int | JStr string

fun toString10 :: "nat \<Rightarrow> string" where
  "toString10 n =
     (if n < 10 then [hexDigit n] else toString10 (n div 10) @ [hexDigit (n mod 10)])"

declare toString10.simps [simp del]

text \<open>
  \<^verbatim>\<open>String(value)\<close>. An integral number of magnitude below $10^{21}$ prints as its decimal
  numeral.
\<close>

fun String_js :: "jsval \<Rightarrow> string" where
  "String_js JUndefined = ''undefined''"
| "String_js JNull = ''null''"
| "String_js (JBool b) = (if b then ''true'' else ''false'')"
| "String_js (JNum n) = (if n < 0 then CHR ''-'' # toString10 (nat (- n)) else toString10 (nat n))"
| "String_js (JStr s) = s"

text \<open>
  Modelled from the spec: the class \<^verbatim>\<open>DynamicValue\<close> (\<^verbatim>\<open>src/core/gl.js\<close>) that holds the
  Define Table, the Fragment Store and the Compiled-Text Cache is not among the sources.
  Section 3 of the specification describes each of them as a mapping from a string key to
  a string: \<^verbatim>\<open>set(key, value)\<close> stores, \<^verbatim>\<open>unset(key)\<close> removes the key, and reading a
  property that was never set yields \<^verbatim>\<open>undefined\<close>. A table is an association list in
  insertion order (the order of \<^verbatim>\<open>Object.keys\<close>); \<^const>\<open>AList.update\<close> keeps the position
  of a key that is already present, as a JavaScript object does.
\<close>

type_synonym dynamicValue = "(string \<times> string) list"

definition dv_set :: "string \<Rightarrow> string \<Rightarrow> dynamicValue \<Rightarrow> dynamicValue" where
  "dv_set key value dv = AList.update key value dv"

definition dv_unset :: "string \<Rightarrow> dynamicValue \<Rightarrow> dynamicValue" where
  "dv_unset key dv = AList.delete key dv"

definition dv_get :: "dynamicValue \<Rightarrow> string \<Rightarrow> string option" where
  "dv_get dv key = map_of dv key"

subsection \<open>ShaderLibPreprocessor.define\<close>

text \<open>
  \<^verbatim>\<open>
  define(key, value) {
    if ('object' == typeof key) {
      return Object.keys(key)
        .map((k) => this.define(k, key[k]))
        .some((v) => true === v)
    } else if ('string' == typeof key) {
      // boolean -> number
      if (true === value) { value = 1 }
      else if (false === value) { value = 0 }
      if (null != value) {
        // any -> string
        value = String(value)
        if (value != this.defines[key]) {
          this.defines.set(key, value)
          return true
        } else {
          return false
        }
      }
    }
    return false
  }
  \<close>
  The branch for a string key is \<open>define\<close>; it returns the result together with the
  table. \<^verbatim>\<open>null != value\<close> is false for \<^verbatim>\<open>null\<close> and for \<^verbatim>\<open>undefined\<close>.
\<close>

definition "define" :: "dynamicValue \<Rightarrow> string \<Rightarrow> jsval \<Rightarrow> bool \<times> dynamicValue" where
  "define defines key value0 =
     (let value = (if value0 = JBool True then JNum 1
                   else if value0 = JBool False then JNum 0
                   else value0)
      in if value \<noteq> JNull \<and> value \<noteq> JUndefined then
           (let value = String_js value
            in if Some value \<noteq> dv_get defines key
               then (True, dv_set key value defines)
               else (False, defines))
         else (False, defines))"

text \<open>
  The branch for an object key: the object is the list of its entries in the order of
  \<^verbatim>\<open>Object.keys\<close>. \<^verbatim>\<open>map\<close> runs \<open>define\<close> on every entry, one after the other, and
  \<^verbatim>\<open>some\<close> looks for a \<^verbatim>\<open>true\<close> among the results.
\<close>

fun define_map :: "dynamicValue \<Rightarrow> (string \<times> jsval) list \<Rightarrow> bool list \<times> dynamicValue" where
  "define_map defines [] = ([], defines)"
| "define_map defines ((k, v) # kvs) =
     (case define defines k v of
        (r, defines1) \<Rightarrow>
          (case define_map defines1 kvs of (rs, defines2) \<Rightarrow> (r # rs, defines2)))"

definition defineObject :: "dynamicValue \<Rightarrow> (string \<times> jsval) list \<Rightarrow> bool \<times> dynamicValue" where
  "defineObject defines key =
     (case define_map defines key of (rs, defines1) \<Rightarrow> (list_ex (\<lambda>v. v = True) rs, defines1))"

text \<open>\<^verbatim>\<open>undefine(key)\<close>.\<close>

definition undefine :: "dynamicValue \<Rightarrow> string \<Rightarrow> dynamicValue" where
  "undefine defines key = dv_unset key defines"

text \<open>
  The coercion in the words of the specification: a boolean becomes \<^verbatim>\<open>"1"\<close> or \<^verbatim>\<open>"0"\<close>,
  any other value becomes its string.
\<close>

definition coerced :: "jsval \<Rightarrow> string" where
  "coerced v = (case v of JBool b \<Rightarrow> (if b then ''1'' else ''0'') | _ \<Rightarrow> String_js v)"

text \<open>\<^verbatim>\<open>null != value\<close>.\<close>

definition non_null :: "jsval \<Rightarrow> bool" where
  "non_null v \<longleftrightarrow> v \<noteq> JNull \<and> v \<noteq> JUndefined"

section \<open>String primitives of the platform\<close>

definition NL :: char where "NL = CHR 0x0A"
definition CR :: char where "CR = CHR 0x0D"
definition TAB :: char where "TAB = CHR 0x09"
definition DQ :: char where "DQ = CHR 0x22"
definition SQ :: char where "SQ = CHR 0x27"

text \<open>The class \<^verbatim>\<open>\s\<close> of regular expressions, which is also what \<^verbatim>\<open>trim\<close> strips.\<close>

definition isSpace :: "char \<Rightarrow> bool" where
  "isSpace c \<longleftrightarrow> c \<in> {CHR '' '', TAB, NL, CHR 0x0B, CHR 0x0C, CR, CHR 0xA0}"

text \<open>The class \<^verbatim>\<open>.\<close>: any character but a line terminator.\<close>

definition isDot :: "char \<Rightarrow> bool" where
  "isDot c \<longleftrightarrow> c \<noteq> NL \<and> c \<noteq> CR"

definition isLower :: "char \<Rightarrow> bool" where
  "isLower c \<longleftrightarrow> 97 \<le> charCodeAt0 c \<and> charCodeAt0 c \<le> 122"

definition isUpper :: "char \<Rightarrow> bool" where
  "isUpper c \<longleftrightarrow> 65 \<le> charCodeAt0 c \<and> charCodeAt0 c \<le> 90"

definition trim :: "string \<Rightarrow> string" where
  "trim s = rev (dropWhile isSpace (rev (dropWhile isSpace s)))"

text \<open>\<^verbatim>\<open>s.split(sep)\<close> for a one-character separator, and \<^verbatim>\<open>parts.join(sep)\<close>.\<close>

fun split :: "char \<Rightarrow> string \<Rightarrow> string list" where
  "split sep [] = [[]]"
| "split sep (c # cs) =
     (if c = sep then [] # split sep cs
      else (case split sep cs of [] \<Rightarrow> [[c]] | l # ls \<Rightarrow> (c # l) # ls))"

fun join :: "string \<Rightarrow> string list \<Rightarrow> string" where
  "join sep [] = []"
| "join sep [l] = l"
| "join sep (l # ls) = l @ sep @ join sep ls"

text \<open>
  \<^verbatim>\<open>s.replace(pattern, '')\<close> with a string pattern: the first occurrence of the pattern is
  removed (the empty pattern occurs at index 0).
\<close>

fun removeFirst :: "string \<Rightarrow> string \<Rightarrow> string" where
  "removeFirst pat [] = []"
| "removeFirst pat (c # cs) =
     (if take (length pat) (c # cs) = pat then drop (length pat) (c # cs)
      else c # removeFirst pat cs)"

subsection \<open>Regular expressions\<close>

text \<open>
  The regular expressions of the source use literals, character classes, greedy \<^verbatim>\<open>?\<close>,
  greedy \<^verbatim>\<open>*\<close> and \<^verbatim>\<open>+\<close> over a character class, capture groups and \<^verbatim>\<open>$\<close> (without the
  \<^verbatim>\<open>m\<close> flag: the end of the input). The matcher is the backtracking matcher of
  ECMAScript in continuation-passing style: a pattern is matched against the input and
  hands the rest of the input and the captures to its continuation; when the continuation
  fails, the next alternative of the pattern is tried, the longer one first.
\<close>

datatype rx =
    Lit string
  | Cls "char \<Rightarrow> bool"
  | Opt rx
  | Star "char \<Rightarrow> bool"
  | Plus "char \<Rightarrow> bool"
  | Seq rx rx
  | Grp nat rx
  | Eoi

type_synonym captures = "(nat \<times> string) list"

fun star_m :: "(char \<Rightarrow> bool) \<Rightarrow> string \<Rightarrow> (string \<Rightarrow> 'a option) \<Rightarrow> 'a option" where
  "star_m p [] k = k []"
| "star_m p (c # cs) k =
     (if p c then (case star_m p cs k of Some r \<Rightarrow> Some r | None \<Rightarrow> k (c # cs))
      else k (c # cs))"

primrec rx_m :: "rx \<Rightarrow> string \<Rightarrow> captures \<Rightarrow> (string \<Rightarrow> captures \<Rightarrow> 'a option) \<Rightarrow> 'a option" where
  "rx_m (Lit l) s caps k = (if take (length l) s = l then k (drop (length l) s) caps else None)"
| "rx_m (Cls p) s caps k = (case s of [] \<Rightarrow> None | c # cs \<Rightarrow> if p c then k cs caps else None)"
| "rx_m (Opt r) s caps k = (case rx_m r s caps k of Some x \<Rightarrow> Some x | None \<Rightarrow> k s caps)"
| "rx_m (Star p) s caps k = star_m p s (\<lambda>s'. k s' caps)"
| "rx_m (Plus p) s caps k =
     (case s of [] \<Rightarrow> None | c # cs \<Rightarrow> if p c then star_m p cs (\<lambda>s'. k s' caps) else None)"
| "rx_m (Seq r1 r2) s caps k = rx_m r1 s caps (\<lambda>s' caps'. rx_m r2 s' caps' k)"
| "rx_m (Grp n r) s caps k =
     rx_m r s caps (\<lambda>s' caps'. k s' ((n, take (length s - length s') s) # caps'))"
| "rx_m Eoi s caps k = (if s = [] then k s caps else None)"

text \<open>
  A match at the start of the input: the rest of the input after the match and the
  captures. A pattern that begins with \<^verbatim>\<open>^\<close> is only tried there.
\<close>

definition rx_at :: "rx \<Rightarrow> string \<Rightarrow> (string \<times> captures) option" where
  "rx_at r s = rx_m r s [] (\<lambda>s' caps. Some (s', caps))"

text \<open>
  \<^verbatim>\<open>s.match(r)\<close> without the \<^verbatim>\<open>g\<close> flag: the leftmost match, as the matched text
  (\<^verbatim>\<open>match[0]\<close>) and the captures; \<^const>\<open>None\<close> is \<^verbatim>\<open>null\<close>.
\<close>

fun rx_match :: "rx \<Rightarrow> string \<Rightarrow> (string \<times> captures) option" where
  "rx_match r [] =
     (case rx_at r [] of Some (rest, caps) \<Rightarrow> Some ([], caps) | None \<Rightarrow> None)"
| "rx_match r (c # cs) =
     (case rx_at r (c # cs) of
        Some (rest, caps) \<Rightarrow> Some (take (length (c # cs) - length rest) (c # cs), caps)
      | None \<Rightarrow> rx_match r cs)"

definition group :: "captures \<Rightarrow> nat \<Rightarrow> string option" where
  "group caps n = map_of caps n"

text \<open>
  \<^verbatim>\<open>s.replace(r, '')\<close> with the \<^verbatim>\<open>g\<close> flag: every match is removed, from left to right;
  after an empty match the scan moves on by one character.
\<close>

fun rx_removeAll :: "rx \<Rightarrow> string \<Rightarrow> string" where
  "rx_removeAll r s =
     (case rx_at r s of
        Some (rest, caps) \<Rightarrow>
          if length rest < length s then rx_removeAll r rest
          else (case s of [] \<Rightarrow> [] | c # cs \<Rightarrow> c # rx_removeAll r cs)
      | None \<Rightarrow> (case s of [] \<Rightarrow> [] | c # cs \<Rightarrow> c # rx_removeAll r cs))"

declare rx_removeAll.simps [simp del]

subsection \<open>Paths\<close>

text \<open>
  Modelled from the spec: the functions \<^verbatim>\<open>dirname\<close>, \<^verbatim>\<open>extname\<close> and \<^verbatim>\<open>resolve\<close> that
  the source imports from the module \<^verbatim>\<open>path\<close> of the platform are not part of the
  repository. Section 4.1 of the specification has \<^verbatim>\<open>resolve\<close> treat the root as a base
  directory and the path as relative to it, as in a file system, after stripping the
  extension. The definitions follow the POSIX functions of the platform: \<open>dirname\<close> is
  the path up to the last separator before the last component, \<open>extname\<close> is the part of
  the last component from its last dot (empty when the component has no dot or only a
  leading one), and \<open>path_resolve\<close> joins its arguments from the right until the path is
  absolute and normalises the segments \<^verbatim>\<open>.\<close>, \<^verbatim>\<open>..\<close> and the empty segment.
\<close>

fun dirname_loop :: "string \<Rightarrow> nat \<Rightarrow> bool \<Rightarrow> nat option" where
  "dirname_loop path 0 matchedSlash = None"
| "dirname_loop path (Suc i) matchedSlash =
     (if path ! Suc i = CHR ''/'' then
        (if \<not> matchedSlash then Some (Suc i) else dirname_loop path i matchedSlash)
      else dirname_loop path i False)"

definition dirname :: "string \<Rightarrow> string" where
  "dirname path =
     (if path = [] then ''.''
      else (case dirname_loop path (length path - 1) True of
              None \<Rightarrow> if hd path = CHR ''/'' then ''/'' else ''.''
            | Some e \<Rightarrow> if hd path = CHR ''/'' \<and> e = 1 then ''//'' else take e path))"

text \<open>
  The scan of \<open>extname\<close> from the end of the path: the index of the dot, the start of
  the last component, the end of the last component, whether only separators were seen,
  and the state of the characters before the dot (0: none seen, 1: only dots, 2: another
  character).
\<close>

type_synonym extState = "nat option \<times> nat \<times> nat option \<times> bool \<times> nat"

fun extname_loop :: "string \<Rightarrow> nat \<Rightarrow> extState \<Rightarrow> extState" where
  "extname_loop path 0 st = st"
| "extname_loop path (Suc i) (startDot, startPart, end, matchedSlash, preDotState) =
     (if path ! i = CHR ''/'' then
        (if \<not> matchedSlash then (startDot, i + 1, end, matchedSlash, preDotState)
         else extname_loop path i (startDot, startPart, end, matchedSlash, preDotState))
      else
        (let end1 = (if end = None then Some (i + 1) else end);
             matchedSlash1 = (if end = None then False else matchedSlash)
         in if path ! i = CHR ''.'' then
              (if startDot = None
               then extname_loop path i (Some i, startPart, end1, matchedSlash1, preDotState)
               else extname_loop path i (startDot, startPart, end1, matchedSlash1, 1))
            else if startDot \<noteq> None
              then extname_loop path i (startDot, startPart, end1, matchedSlash1, 2)
              else extname_loop path i (startDot, startPart, end1, matchedSlash1, preDotState)))"

definition extname :: "string \<Rightarrow> string" where
  "extname path =
     (case extname_loop path (length path) (None, 0, None, True, 0) of
        (Some startDot, startPart, Some end, matchedSlash, preDotState) \<Rightarrow>
          if preDotState = 0 \<or>
             (preDotState = 1 \<and> startDot = end - 1 \<and> startDot = startPart + 1)
          then [] else drop startDot (take end path)
      | _ \<Rightarrow> [])"

fun normalizeSegments :: "string list \<Rightarrow> string list \<Rightarrow> string list" where
  "normalizeSegments acc [] = acc"
| "normalizeSegments acc (seg # segs) =
     (if seg = [] \<or> seg = ''.'' then normalizeSegments acc segs
      else if seg = ''..'' then normalizeSegments (butlast acc) segs
      else normalizeSegments (acc @ [seg]) segs)"

text \<open>
  \<^verbatim>\<open>path.resolve(from, to)\<close>. A relative first argument is taken relative to the working
  directory \<^verbatim>\<open>/\<close>; both calls of the source pass an absolute one.
\<close>

definition path_resolve :: "string \<Rightarrow> string \<Rightarrow> string" where
  "path_resolve from to =
     (let p = (if to = [] then from
               else if hd to = CHR ''/'' then to
               else from @ ''/'' @ to)
      in ''/'' @ join ''/'' (normalizeSegments [] (split (CHR ''/'') p)))"

section \<open>The shader library\<close>

subsection \<open>Tokens and the external packages\<close>

text \<open>The token types that the source names.\<close>

datatype tokenType =
    BlockComment | LineComment | Preprocessor | Whitespace | Ident | Operator
  | Builtin | Keyword | Integer | Float | EOF

record token =
  tok_type :: tokenType
  tok_data :: string
  tok_line :: nat

text \<open>
  The packages \<^verbatim>\<open>glsl-tokenizer\<close>, \<^verbatim>\<open>glsl-inject-defines\<close> and \<^verbatim>\<open>prepr\<close> are not part
  of the repository; the functions of the source take them as a parameter:
  \<^item> \<open>glslTokenize version source\<close> is the token list of a source text,
  \<^item> \<open>injectDefines source defines\<close> is the text with the macros of the table injected,
  \<^item> \<open>prepr source defines\<close> is the text after the evaluation of its directives.
\<close>

record externals =
  glslTokenize :: "string \<Rightarrow> string \<Rightarrow> token list"
  injectDefines :: "string \<Rightarrow> dynamicValue \<Rightarrow> string"
  prepr :: "string \<Rightarrow> dynamicValue \<Rightarrow> string"

text \<open>
  \<^verbatim>\<open>glsl-token-string\<close>: the texts of the tokens, one after the other; the token that
  marks the end of the input has no text.
\<close>

definition glslTokensToString :: "token list \<Rightarrow> string" where
  "glslTokensToString tokens =
     concat (map tok_data (filter (\<lambda>t. tok_type t \<noteq> EOF) tokens))"

subsection \<open>ShaderLib\<close>

definition kDefaultShaderLibPrecision :: string where
  "kDefaultShaderLibPrecision = ''mediump float''"

definition kDefaultShaderLibVersion :: string where
  "kDefaultShaderLibVersion = ''100''"

definition kAnonymousShaderName :: string where
  "kAnonymousShaderName = ''<anonymous>''"

text \<open>
  The fields of a \<^verbatim>\<open>ShaderLib\<close>, with the Define Table of its preprocessor. A middleware
  is a function from text to text that may return nothing (\<^verbatim>\<open>coalesce\<close> then keeps the
  text it was given).
\<close>

record shaderLib =
  lib_cache :: dynamicValue
  lib_store :: dynamicValue
  lib_version :: string
  lib_precision :: string
  lib_middleware :: "(string \<Rightarrow> string option) list"
  lib_defines :: dynamicValue

datatype error =
    SyntaxError string
  | ReferenceError string
  | TypeError
  | GeneratorError string
  | Exhausted

text \<open>
  \<^verbatim>\<open>
  injectShaderNameDefine(name, source) {
    const regex =
      /\s?#ifndef SHADER_NAME\s?\n#define SHADER_NAME\s?.*\n#endif\n?$/g
    return String(source).replace(regex, '')
  }
  \<close>
\<close>

fun seqs :: "rx list \<Rightarrow> rx" where
  "seqs [] = Lit []"
| "seqs [r] = r"
| "seqs (r # rs) = Seq r (seqs rs)"

definition shaderNameRegex :: rx where
  "shaderNameRegex = seqs
     [Opt (Cls isSpace), Lit ''#ifndef SHADER_NAME'', Opt (Cls isSpace), Lit [NL],
      Lit ''#define SHADER_NAME'', Opt (Cls isSpace), Star isDot, Lit [NL],
      Lit ''#endif'', Opt (Lit [NL]), Eoi]"

definition injectShaderNameDefine :: "string \<Rightarrow> string \<Rightarrow> string" where
  "injectShaderNameDefine name source = rx_removeAll shaderNameRegex source"

text \<open>
  \<^verbatim>\<open>
  injectShaderPrecision(source) {
    const {precision = kDefaultShaderLibPrecision} = this
    const header = `precision ${precision};`
    const regex =
      /[\s|\t]?precision\s+([a-z]+)\s+([a-z|A-Z]+)[\s+]?;[\s|\t|\r]?/g
    source = source
      .replace(header, '')
      .replace(regex, '')
    return `${header}\n${source}`
  }
  \<close>
\<close>

definition precisionRegex :: rx where
  "precisionRegex = seqs
     [Opt (Cls (\<lambda>c. isSpace c \<or> c = CHR ''|'' \<or> c = TAB)), Lit ''precision'',
      Plus isSpace, Grp 1 (Plus isLower), Plus isSpace,
      Grp 2 (Plus (\<lambda>c. isLower c \<or> c = CHR ''|'' \<or> isUpper c)),
      Opt (Cls (\<lambda>c. isSpace c \<or> c = CHR ''+'')), Lit '';'',
      Opt (Cls (\<lambda>c. isSpace c \<or> c = CHR ''|'' \<or> c = TAB \<or> c = CR))]"

definition injectShaderPrecision :: "shaderLib \<Rightarrow> string \<Rightarrow> string" where
  "injectShaderPrecision lib source =
     (let header = ''precision '' @ lib_precision lib @ '';'';
          source1 = rx_removeAll precisionRegex (removeFirst header source)
      in header @ [NL] @ source1)"

text \<open>
  \<^verbatim>\<open>
  add(name, source) {
    if ('string' == typeof name && 'string' == typeof source) {
      name = name.replace(/[\/]+/g, '/')
      this.store.set(name, source)
    } else if (name && 'object' == typeof name) { ... }
    return this
  }
  \<close>
  The branch for two strings; \<open>collapseSlashes\<close> is the replacement of every run of
  slashes by one slash.
\<close>

fun collapseSlashes :: "string \<Rightarrow> string" where
  "collapseSlashes (a # b # s) =
     (if a = CHR ''/'' \<and> b = CHR ''/'' then collapseSlashes (b # s)
      else a # collapseSlashes (b # s))"
| "collapseSlashes s = s"

definition add :: "shaderLib \<Rightarrow> string \<Rightarrow> string \<Rightarrow> shaderLib" where
  "add lib name source = lib\<lparr>lib_store := dv_set (collapseSlashes name) source (lib_store lib)\<rparr>"

text \<open>
  \<^verbatim>\<open>
  resolve(path, root = './') {
    root = resolve('/', root)
    path = path.replace(extname(path), '')
    path = resolve(root, path).slice(1)
    return path
  }
  \<close>
\<close>

definition resolve :: "string \<Rightarrow> string \<Rightarrow> string" where
  "resolve path root =
     (let root1 = path_resolve ''/'' root;
          path1 = removeFirst (extname path) path
      in drop 1 (path_resolve root1 path1))"

text \<open>
  A property key: \<^verbatim>\<open>this.cache[hash]\<close> reads the property named by the string of
  \<^verbatim>\<open>hash\<close>, which is \<^verbatim>\<open>"null"\<close> for \<^verbatim>\<open>null\<close>.
\<close>

definition propertyKey :: "string option \<Rightarrow> string" where
  "propertyKey k = (case k of None \<Rightarrow> ''null'' | Some s \<Rightarrow> s)"

text \<open>A value read from a table is truthy when it is a string that is not empty.\<close>

definition truthy :: "string option \<Rightarrow> bool" where
  "truthy v \<longleftrightarrow> (case v of None \<Rightarrow> False | Some s \<Rightarrow> s \<noteq> [])"

subsection \<open>ShaderLibPreprocessor.process\<close>

text \<open>
  The regular expressions of \<^verbatim>\<open>visit\<close>:
  \<^verbatim>\<open>/(#[a-z]+)\s?/\<close>, \<^verbatim>\<open>/#define[\s]+(.*)/\<close>, \<^verbatim>\<open>/.*[\s]+(.*)/\<close>,
  \<^verbatim>\<open>/[\s|\t]?#include[\s]+([<|"]?.*[>|"]?)$/\<close> and \<^verbatim>\<open>/^["|<](.*)["|>]/\<close>.
\<close>

definition directiveRegex :: rx where
  "directiveRegex = seqs [Grp 1 (Seq (Lit ''#'') (Plus isLower)), Opt (Cls isSpace)]"

definition defineRegex :: rx where
  "defineRegex = seqs [Lit ''#define'', Plus isSpace, Grp 1 (Star isDot)]"

definition kvRegex :: rx where
  "kvRegex = seqs [Star isDot, Plus isSpace, Grp 1 (Star isDot)]"

definition includeRegex :: rx where
  "includeRegex = seqs
     [Opt (Cls (\<lambda>c. isSpace c \<or> c = CHR ''|'' \<or> c = TAB)), Lit ''#include'', Plus isSpace,
      Grp 1 (seqs [Opt (Cls (\<lambda>c. c = CHR ''<'' \<or> c = CHR ''|'' \<or> c = DQ)), Star isDot,
                   Opt (Cls (\<lambda>c. c = CHR ''>'' \<or> c = CHR ''|'' \<or> c = DQ))]),
      Eoi]"

definition pathRegex :: rx where
  "pathRegex = seqs
     [Cls (\<lambda>c. c = DQ \<or> c = CHR ''|'' \<or> c = CHR ''<''), Grp 1 (Star isDot),
      Cls (\<lambda>c. c = DQ \<or> c = CHR ''|'' \<or> c = CHR ''>'')]"

text \<open>
  \<^verbatim>\<open>token.data.match(/(#[a-z]+)\s?/)[0].trim()\<close>; \<^const>\<open>None\<close> when the match is
  \<^verbatim>\<open>null\<close>, where the index raises a type error.
\<close>

definition directive :: "string \<Rightarrow> string option" where
  "directive data =
     (case rx_match directiveRegex data of
        None \<Rightarrow> None
      | Some (m, caps) \<Rightarrow> Some (trim m))"

text \<open>
  \<^verbatim>\<open>
  case '#define':
    const match = token.data.match(/#define[\s]+(.*)/)
    if (match) {
      const kv = match[1].match(/.*[\s]+(.*)/)
      if (!kv) { token.data = `${token.data} 1` }
    }
    push()
  \<close>
  The token that is pushed.
\<close>

definition defineDirective :: "token \<Rightarrow> token" where
  "defineDirective token =
     (case rx_match defineRegex (tok_data token) of
        None \<Rightarrow> token
      | Some (m, caps) \<Rightarrow>
          (case group caps 1 of
             None \<Rightarrow> token
           | Some m1 \<Rightarrow>
               (case rx_match kvRegex m1 of
                  None \<Rightarrow> token\<lparr>tok_data := tok_data token @ '' 1''\<rparr>
                | Some kv \<Rightarrow> token)))"

text \<open>
  \<^verbatim>\<open>
  const createError = (ErrorType, msg) => new ErrorType(
    `${msg || ''}\n\tat (glsl) ${includeStack.join('\n\tat (glsl) ')}`
  )
  \<close>
\<close>

definition createError :: "(string \<Rightarrow> error) \<Rightarrow> string \<Rightarrow> string list \<Rightarrow> error" where
  "createError ErrorType msg includeStack =
     ErrorType (msg @ [NL, TAB] @ ''at (glsl) '' @ join ([NL, TAB] @ ''at (glsl) '') includeStack)"

definition unexpected :: "string \<Rightarrow> string \<Rightarrow> string" where
  "unexpected tok expecting = ''Unexpected token '' @ [SQ] @ tok @ [SQ] @ ''. Expecting '' @ expecting @ ''.''"

text \<open>
  The first half of the case \<^verbatim>\<open>'#include'\<close>, up to \<^verbatim>\<open>nextRoot\<close>:
  \<^verbatim>\<open>
  const [statement, arg] = token.data.match(includeRegex) || []
  const path = arg.replace(/^["|<](.*)["|>]/, '$1').trim()
  const left = arg[0].trim()
  const right = arg[arg.trim().length - 1].trim()
  if (-1 == ['<', '"'].indexOf(left)) {
    const msg = `Unexpected token '${left}'. Expecting '<' or '"'.`
    throw createError(SyntaxError, msg)
  } else if (-1 == ['>', '"'].indexOf(right)) {
    const expected = '<' == left ? `'>'` : `'"'`
    const msg = `Unexpected token '${right}'. Expecting ${expected}.`
    throw createError(SyntaxError, msg)
  }
  if ('<' == left && '>' != right) {
    const msg = `Unexpected token '${right}'. Expecting '>'.`
    throw createError(SyntaxError, msg)
  } else if ('"' == left && '"' != right) {
    const msg = `Unexpected token '${right}'. Expecting '"'.`
    throw createError(SyntaxError, msg)
  }
  const nextRoot = '<' == left && '>' == right ? '/' : root
  \<close>
  The result is \<open>(arg, path, nextRoot)\<close>. When the regular expression does not match,
  \<^verbatim>\<open>arg\<close> is \<^verbatim>\<open>undefined\<close> and \<^verbatim>\<open>arg.replace\<close> raises a type error; when \<^verbatim>\<open>arg\<close> is
  empty, \<^verbatim>\<open>arg[0]\<close> is \<^verbatim>\<open>undefined\<close> and \<^verbatim>\<open>arg[0].trim()\<close> raises one.
\<close>

definition includeDirective ::
  "string list \<Rightarrow> string \<Rightarrow> string \<Rightarrow> error + (string \<times> string \<times> string)" where
  "includeDirective includeStack root data =
     (case rx_match includeRegex data of
        None \<Rightarrow> Inl TypeError
      | Some (statement, caps) \<Rightarrow>
          (case group caps 1 of
             None \<Rightarrow> Inl TypeError
           | Some arg \<Rightarrow>
               (let path = trim (case rx_at pathRegex arg of
                                   None \<Rightarrow> arg
                                 | Some (rest, c) \<Rightarrow>
                                     (case group c 1 of None \<Rightarrow> arg | Some g \<Rightarrow> g @ rest))
                in if arg = [] \<or> trim arg = [] then Inl TypeError
                   else
                     (let left = trim [hd arg];
                          right = trim [arg ! (length (trim arg) - 1)]
                      in if left \<noteq> ''<'' \<and> left \<noteq> [DQ] then
                           Inl (createError SyntaxError
                                  (unexpected left ([SQ] @ ''<'' @ [SQ] @ '' or '' @ [SQ, DQ, SQ]))
                                  includeStack)
                         else if right \<noteq> ''>'' \<and> right \<noteq> [DQ] then
                           Inl (createError SyntaxError
                                  (unexpected right
                                     (if left = ''<'' then [SQ] @ ''>'' @ [SQ] else [SQ, DQ, SQ]))
                                  includeStack)
                         else if left = ''<'' \<and> right \<noteq> ''>'' then
                           Inl (createError SyntaxError
                                  (unexpected right ([SQ] @ ''>'' @ [SQ])) includeStack)
                         else if left = [DQ] \<and> right \<noteq> [DQ] then
                           Inl (createError SyntaxError
                                  (unexpected right [SQ, DQ, SQ]) includeStack)
                         else Inr (arg, path,
                                   if left = ''<'' \<and> right = ''>'' then ''/'' else root)))))"

text \<open>
  \<^verbatim>\<open>const prefix = '.' != path[0] ? './' : ''\<close> and the argument of \<^verbatim>\<open>shaderLib.resolve\<close>.
\<close>

definition prefixed :: "string \<Rightarrow> string" where
  "prefixed path = (if path \<noteq> [] \<and> hd path = CHR ''.'' then [] else ''./'') @ path"

text \<open>
  The four functions \<^verbatim>\<open>ShaderLib.compile\<close>, \<^verbatim>\<open>ShaderLibPreprocessor.process\<close>, its
  inner function \<^verbatim>\<open>visit\<close> and \<^verbatim>\<open>ShaderLib.get\<close> call each other:
  \<^verbatim>\<open>
  compile(name, source) {
    if (!source && name) { source = name; name = null }
    if (!name) { name = kAnonymousShaderName }
    if (!source) { return null }
    const hash = this.hash(source)
    if (this.cache[hash]) { return this.cache[hash] }
    source = this.injectShaderNameDefine(name, source)
    source = this.preprocessor.process(name, source)
    source = this.injectShaderPrecision(source)
    source = source
      .split('\n')
      .filter((line) => line.length)
      .map((line) => 1 == line.length ? `${line}\n` : line)
      .join('\n')
    this.cache.set(hash, source)
    return `${source}\n`
  }

  process(name, source, opts = {}) {
    const { shaderLib, defines } = this
    const { middleware, version } = shaderLib
    const includeStack = []
    const stack = []
    opts = !opts || 'object' != typeof opts ? {} : opts
    if ('string' == typeof source) {
      source = injectDefines(source, { ...defines, ...opts.defines })
    }
    visit(`\n${source}\n`, stack, name != kAnonymousShaderName ? dirname(name) : '/')
    source = glslTokensToString(stack)
    return middleware
      .filter((ware) => 'function' == typeof ware)
      .reduce((src, ware) => {
        return coalesce(ware(shaderLib, this, src, opts), src)
      }, source)
      .replace('#define GLSLIFY 1\n', '')

    function visit(source, stack, root) {
      const tokens = glslTokenize(source, {version})
      for (const token of tokens) {
        const push = () => stack.push(token)
        switch (token.type) {
          case kGLSLTokenBlockComment:
          case kGLSLTokenLineComment:
            break
          case kGLSLTokenPreprocecsor:
            const directive = token.data.match(/(#[a-z]+)\s?/)[0].trim()
            switch (directive) {
              case '#define': ... push(); break
              case '#include':
                ...
                const resolvedPath = shaderLib.resolve(`${prefix}${path}`, nextRoot)
                const shader = shaderLib.get(resolvedPath)
                if (shader) {
                  includeStack.push(`${path}:${token.line}`)
                  visit(shader + '\n', stack, nextRoot)
                } else {
                  throw createError(ReferenceError, `glsl lib ${arg} not found.`)
                }
                includeStack.pop()
                break
              default: push()
            }
            break
          default: push(); break
        }
      }
    }
  }

  get(path) {
    if ('string' == typeof path) {
      if ('string' == typeof this.store[path]) {
        return this.compile(path, this.store[path])
      }
    }
    return null
  }
  \<close>
  A name or source that is \<^verbatim>\<open>null\<close> is the empty string here (both are falsy), and the
  result \<^verbatim>\<open>null\<close> is \<^const>\<open>None\<close>. An exception is a result \<^const>\<open>Inl\<close>; the library
  comes back with every result, since the cache entries written by nested compilations
  stay when an exception is raised. \<open>visit\<close> takes the tokens of its source text, the
  stack and the include stack and returns the stack (\<^verbatim>\<open>includeStack.pop()\<close> restores the
  include stack after a nested visit).

  Nothing bounds the depth of includes in the source, so the first argument \<open>n\<close> bounds
  it here: each include spends one unit, and an include at depth 0 is the result
  \<^const>\<open>Exhausted\<close>.
\<close>

function (sequential) compile ::
      "externals \<Rightarrow> nat \<Rightarrow> shaderLib \<Rightarrow> string \<Rightarrow> string \<Rightarrow> (error + string option) \<times> shaderLib"
  and process ::
      "externals \<Rightarrow> nat \<Rightarrow> shaderLib \<Rightarrow> string \<Rightarrow> string \<Rightarrow> (error + string) \<times> shaderLib"
  and visit ::
      "externals \<Rightarrow> nat \<Rightarrow> shaderLib \<Rightarrow> string list \<Rightarrow> token list \<Rightarrow> token list \<Rightarrow> string
         \<Rightarrow> (error + token list) \<times> shaderLib"
  and get ::
      "externals \<Rightarrow> nat \<Rightarrow> shaderLib \<Rightarrow> string \<Rightarrow> (error + string option) \<times> shaderLib"
where
  "compile E n lib name0 source0 =
     (let source1 = (if source0 = [] \<and> name0 \<noteq> [] then name0 else source0);
          name1 = (if source0 = [] \<and> name0 \<noteq> [] then [] else name0);
          name = (if name1 = [] then kAnonymousShaderName else name1)
      in if source1 = [] then (Inr None, lib)
         else
           (let hash = propertyKey (hash (Some source1))
            in if truthy (dv_get (lib_cache lib) hash) then (Inr (dv_get (lib_cache lib) hash), lib)
               else
                 (case process E n lib name (injectShaderNameDefine name source1) of
                    (Inl e, lib1) \<Rightarrow> (Inl e, lib1)
                  | (Inr source2, lib1) \<Rightarrow>
                      (let source3 = injectShaderPrecision lib1 source2;
                           source4 = join [NL]
                             (map (\<lambda>line. if length line = 1 then line @ [NL] else line)
                                (filter (\<lambda>line. line \<noteq> []) (split NL source3)))
                       in (Inr (Some (source4 @ [NL])),
                           lib1\<lparr>lib_cache := dv_set hash source4 (lib_cache lib1)\<rparr>)))))"
| "process E n lib name source =
     (let source1 = injectDefines E source (lib_defines lib)
      in case visit E n lib []
                (glslTokenize E (lib_version lib) ([NL] @ source1 @ [NL])) []
                (if name \<noteq> kAnonymousShaderName then dirname name else ''/'') of
           (Inl e, lib1) \<Rightarrow> (Inl e, lib1)
         | (Inr stack, lib1) \<Rightarrow>
             (Inr (removeFirst (''#define GLSLIFY 1'' @ [NL])
                     (foldl (\<lambda>src ware. case ware src of None \<Rightarrow> src | Some src1 \<Rightarrow> src1)
                        (glslTokensToString stack) (lib_middleware lib))),
              lib1))"
| "visit E n lib includeStack [] stack root = (Inr stack, lib)"
| "visit E n lib includeStack (token # tokens) stack root =
     (if tok_type token = BlockComment \<or> tok_type token = LineComment then
        visit E n lib includeStack tokens stack root
      else if tok_type token = Preprocessor then
        (case directive (tok_data token) of
           None \<Rightarrow> (Inl TypeError, lib)
         | Some d \<Rightarrow>
             if d = ''#define'' then
               visit E n lib includeStack tokens (stack @ [defineDirective token]) root
             else if d = ''#include'' then
               (case includeDirective includeStack root (tok_data token) of
                  Inl e \<Rightarrow> (Inl e, lib)
                | Inr (arg, path, nextRoot) \<Rightarrow>
                    (case n of
                       0 \<Rightarrow> (Inl Exhausted, lib)
                     | Suc m \<Rightarrow>
                         (case get E m lib (resolve (prefixed path) nextRoot) of
                            (Inl e, lib1) \<Rightarrow> (Inl e, lib1)
                          | (Inr shader, lib1) \<Rightarrow>
                              if truthy shader then
                                (case visit E m lib1
                                        (includeStack @ [path @ '':'' @ toString10 (tok_line token)])
                                        (glslTokenize E (lib_version lib1) (the shader @ [NL]))
                                        stack nextRoot of
                                   (Inl e, lib2) \<Rightarrow> (Inl e, lib2)
                                 | (Inr stack1, lib2) \<Rightarrow>
                                     visit E n lib2 includeStack tokens stack1 root)
                              else
                                (Inl (createError ReferenceError
                                        (''glsl lib '' @ arg @ '' not found.'') includeStack),
                                 lib1))))
             else visit E n lib includeStack tokens (stack @ [token]) root)
      else visit E n lib includeStack tokens (stack @ [token]) root)"
| "get E n lib path =
     (case dv_get (lib_store lib) path of
        Some source \<Rightarrow> compile E n lib path source
      | None \<Rightarrow> (Inr None, lib))"
  by pat_completeness auto

termination
  by (relation "measures
        [\<lambda>x. case x of
               Inl (Inl (E, n, r)) \<Rightarrow> n
             | Inl (Inr (E, n, r)) \<Rightarrow> n
             | Inr (Inl (E, n, r)) \<Rightarrow> n
             | Inr (Inr (E, n, r)) \<Rightarrow> n,
         \<lambda>x. case x of
               Inl (Inl r) \<Rightarrow> 3
             | Inl (Inr r) \<Rightarrow> 2
             | Inr (Inl r) \<Rightarrow> 1
             | Inr (Inr r) \<Rightarrow> 4,
         \<lambda>x. case x of
               Inr (Inl (E, n, lib, includeStack, tokens, r)) \<Rightarrow> length tokens
             | _ \<Rightarrow> 0]")
     simp_all

declare compile.simps [simp del] process.simps [simp del] get.simps [simp del] visit.simps [simp del]

subsection \<open>A reference instance of the external packages\<close>

text \<open>
  Modelled from the spec: the tokenizer is the package \<^verbatim>\<open>glsl-tokenizer\<close>, which is not
  part of the repository. Section 4.3 of the specification has it recognise comments and
  preprocessor directives in the raw source text; \<^verbatim>\<open>visit\<close> drops the former, dispatches
  on the latter and keeps every other token as it is. The reference tokenizer cuts a text
  into line comments and preprocessor directives (up to the end of the line, a backslash
  continuing the line), block comments, runs of whitespace and runs of other characters
  (given the type \<^const>\<open>Ident\<close>, which nothing in the source inspects), and ends with the
  token \<^const>\<open>EOF\<close>. The line of a token is one plus the number of line feeds up to its
  end.
\<close>

fun directiveSpan :: "char \<Rightarrow> string \<Rightarrow> string \<times> string" where
  "directiveSpan prev [] = ([], [])"
| "directiveSpan prev (c # cs) =
     (if (c = CR \<or> c = NL) \<and> prev \<noteq> CHR 0x5C then ([], c # cs)
      else (case directiveSpan c cs of (d, rest) \<Rightarrow> (c # d, rest)))"

fun blockSpan :: "string \<Rightarrow> string \<times> string" where
  "blockSpan (a # b # cs) =
     (if a = CHR ''*'' \<and> b = CHR ''/'' then (''*/'', cs)
      else (case blockSpan (b # cs) of (d, rest) \<Rightarrow> (a # d, rest)))"
| "blockSpan s = (s, [])"

definition isWordChar :: "char \<Rightarrow> bool" where
  "isWordChar c \<longleftrightarrow> \<not> isSpace c \<and> c \<noteq> CHR ''#'' \<and> c \<noteq> CHR ''/''"

definition nextToken :: "string \<Rightarrow> tokenType \<times> string \<times> string" where
  "nextToken s =
     (case s of
        [] \<Rightarrow> (EOF, [], [])
      | c # cs \<Rightarrow>
          if c = CHR ''#'' then
            (case directiveSpan c s of (d, rest) \<Rightarrow> (Preprocessor, d, rest))
          else if c = CHR ''/'' \<and> take 1 cs = ''/'' then
            (case directiveSpan c s of (d, rest) \<Rightarrow> (LineComment, d, rest))
          else if c = CHR ''/'' \<and> take 1 cs = ''*'' then
            (case blockSpan (drop 1 cs) of (d, rest) \<Rightarrow> (BlockComment, ''/*'' @ d, rest))
          else if isSpace c then (Whitespace, takeWhile isSpace s, dropWhile isSpace s)
          else (Ident, c # takeWhile isWordChar cs, dropWhile isWordChar cs))"

fun tokenizeFrom :: "nat \<Rightarrow> nat \<Rightarrow> string \<Rightarrow> token list" where
  "tokenizeFrom 0 line s = []"
| "tokenizeFrom (Suc k) line s =
     (if s = [] then [\<lparr>tok_type = EOF, tok_data = ''(eof)'', tok_line = line\<rparr>]
      else (case nextToken s of
              (ty, d, rest) \<Rightarrow>
                (let line1 = line + length (filter (\<lambda>c. c = NL) d)
                 in \<lparr>tok_type = ty, tok_data = d, tok_line = line1\<rparr> # tokenizeFrom k line1 rest)))"

definition refTokenize :: "string \<Rightarrow> string \<Rightarrow> token list" where
  "refTokenize version source = tokenizeFrom (Suc (length source)) 1 source"

text \<open>
  Modelled from the spec: the package \<^verbatim>\<open>glsl-inject-defines\<close> is not part of the
  repository. Section 4.3 has the define table injected as literal \<^verbatim>\<open>#define\<close> prologue
  lines; an empty table leaves the text as it is.
\<close>

definition refInjectDefines :: "string \<Rightarrow> dynamicValue \<Rightarrow> string" where
  "refInjectDefines source defines =
     concat (map (\<lambda>(k, v). ''#define '' @ k @ (if v = [] then [] else '' '' @ v) @ [NL]) defines)
       @ source"

text \<open>
  Modelled from the spec: the package \<^verbatim>\<open>prepr\<close> is not part of the repository, and the
  specification leaves the evaluation of directives to the consumer of the compiled text.
  The reference instance returns the text as it is.
\<close>

definition refPrepr :: "string \<Rightarrow> dynamicValue \<Rightarrow> string" where
  "refPrepr source defines = source"

definition refExternals :: externals where
  "refExternals =
     \<lparr>glslTokenize = refTokenize, injectDefines = refInjectDefines, prepr = refPrepr\<rparr>"

text \<open>A library without fragments, defines or middleware, with the default settings.\<close>

definition emptyLib :: shaderLib where
  "emptyLib =
     \<lparr>lib_cache = [], lib_store = [], lib_version = kDefaultShaderLibVersion,
      lib_precision = kDefaultShaderLibPrecision, lib_middleware = [], lib_defines = []\<rparr>"

text \<open>A library whose only fragment has the empty source.\<close>

definition libEmptyFragment :: shaderLib where
  "libEmptyFragment = add emptyLib ''foo'' []"

section \<open>The shader instance\<close>

text \<open>
  A vertex or fragment source of a frame state is absent, a literal text, or a function
  that generates the text from the frame (the regl context and the state it is called
  with, of a type \<open>'f\<close> that is left open); the function may raise.
\<close>

datatype 'f source = NoSource | Literal string | Generated "'f \<Rightarrow> error + string"

text \<open>The frame state handed to \<^verbatim>\<open>update\<close>, and the regl context of the enclosing scope.\<close>

record 'f frameState =
  st_forceCompile :: bool
  st_defines :: "(string \<times> jsval) list"
  st_vertexShader :: "'f source"
  st_fragmentShader :: "'f source"

record 'f reglContext =
  ctx_defines :: "(string \<times> jsval) list"
  ctx_frame :: 'f

text \<open>
  A regl command made by \<^verbatim>\<open>ctx.regl(opts)\<close> from the program texts \<^verbatim>\<open>opts.vert\<close> and
  \<^verbatim>\<open>opts.frag\<close>.
\<close>

record command =
  cmd_vert :: "string option"
  cmd_frag :: "string option"

text \<open>
  The variables of the closure of the constructor of \<^verbatim>\<open>Shader\<close>:
  \<^verbatim>\<open>
  const { defines, precision, shaderName } = initialState
  const shaderLib = new ShaderLib({ ...initialState, precision, defines })
  let injectParentContext = ctx.regl({})
  let injectContext = null
  let fragmentShaderUncompiled = null
  let vertexShaderUncompiled = null
  let fragmentShader = null
  let vertexShader = null
  const contextCache = {}
  const shaderCache = {}
  \<close>
  \<open>sh_parentDefines\<close> tells whether \<^verbatim>\<open>injectParentContext\<close> is the command of
  \<^verbatim>\<open>parentOpts\<close>, which adds the defines of the instance to those of the context.
\<close>

record shader =
  sh_shaderLib :: shaderLib
  sh_defines :: "(string \<times> jsval) list"
  sh_shaderName :: string
  sh_parentDefines :: bool
  sh_injectContext :: "command option"
  sh_fragmentShaderUncompiled :: "string option"
  sh_vertexShaderUncompiled :: "string option"
  sh_fragmentShader :: "string option"
  sh_vertexShader :: "string option"
  sh_contextCache :: "(string \<times> command) list"
  sh_shaderCache :: dynamicValue

text \<open>
  The object spread \<^verbatim>\<open>{ ...a, ...b }\<close>, which is also what \<^verbatim>\<open>assign(a, b)\<close> leaves in
  \<^verbatim>\<open>a\<close>. Modelled from the spec: \<^verbatim>\<open>assign\<close> comes from \<^verbatim>\<open>src/utils\<close>, which is not
  among the sources; section 2 of the specification has the controller merge the ambient
  defines with those of the upstream scope.
\<close>

definition spread :: "('k \<times> 'v) list \<Rightarrow> ('k \<times> 'v) list \<Rightarrow> ('k \<times> 'v) list" where
  "spread a b = foldl (\<lambda>acc (k, v). AList.update k v acc) a b"

text \<open>
  \<^verbatim>\<open>
  preprocess(source) {
    const {defines} = this
    let whitespace = 0
    source = preprocess(source, defines)
    source = source
      .split('\n')
      .filter((line) => false == /^\s*$/.test(line))
      .join('\n')
    return source
  }
  \<close>
\<close>

definition ShaderLib_preprocess :: "externals \<Rightarrow> shaderLib \<Rightarrow> string \<Rightarrow> string" where
  "ShaderLib_preprocess E lib source =
     join [NL] (filter (\<lambda>line. \<not> list_all isSpace line)
                  (split NL (prepr E source (lib_defines lib))))"

text \<open>
  \<^verbatim>\<open>
  function getViableShader(reglContext, currentState, shader) {
    if ('string' == typeof shader) { return shader }
    else if ('function' == typeof shader) {
      return shader(reglContext, currentState)
    }
  }

  function isViableShader(shader) {
    return ['string', 'function'].indexOf(typeof shader) > -1
  }
  \<close>
\<close>

definition getViableShader :: "'f \<Rightarrow> 'f source \<Rightarrow> error + string option" where
  "getViableShader frame shader =
     (case shader of
        Literal s \<Rightarrow> Inr (Some s)
      | Generated f \<Rightarrow> (case f frame of Inl e \<Rightarrow> Inl e | Inr s \<Rightarrow> Inr (Some s))
      | NoSource \<Rightarrow> Inr None)"

definition isViableShader :: "'f source \<Rightarrow> bool" where
  "isViableShader shader \<longleftrightarrow> shader \<noteq> NoSource"

text \<open>
  \<^verbatim>\<open>
  function shouldCompile(reglContext, currentState) {
    let needsCompile = false
    check('function' != typeof injectContext)
    checkShader(vertexShaderUncompiled, currentState.vertexShader)
    checkShader(fragmentShaderUncompiled, currentState.fragmentShader)
    return needsCompile

    function check(cond) {
      if (cond) { needsCompile = true }
    }

    function checkShader(current, next) {
      let cond = false
      next = getViableShader(reglContext, currentState, next)
      if (shaderCache[shaderLib.hash(next)]) {
        return check(false)
      }
      if ('string' != typeof current && next) {
        return check(true)
      } else if ('string' == typeof next && current != next) {
        return check(true)
      }
    }
  }
  \<close>
  \<open>checkShader\<close> returns whether it sets \<^verbatim>\<open>needsCompile\<close>.
\<close>

definition checkShader :: "shader \<Rightarrow> 'f \<Rightarrow> string option \<Rightarrow> 'f source \<Rightarrow> error + bool" where
  "checkShader sh frame current next0 =
     (case getViableShader frame next0 of
        Inl e \<Rightarrow> Inl e
      | Inr next \<Rightarrow>
          Inr (if truthy (dv_get (sh_shaderCache sh) (propertyKey (hash next))) then False
               else if current = None \<and> truthy next then True
               else if next \<noteq> None \<and> current \<noteq> next then True
               else False))"

definition shouldCompile :: "shader \<Rightarrow> 'f \<Rightarrow> 'f frameState \<Rightarrow> error + bool" where
  "shouldCompile sh frame currentState =
     (case checkShader sh frame (sh_vertexShaderUncompiled sh) (st_vertexShader currentState) of
        Inl e \<Rightarrow> Inl e
      | Inr c1 \<Rightarrow>
          (case checkShader sh frame (sh_fragmentShaderUncompiled sh)
                  (st_fragmentShader currentState) of
             Inl e \<Rightarrow> Inl e
           | Inr c2 \<Rightarrow> Inr (sh_injectContext sh = None \<or> c1 \<or> c2)))"

text \<open>
  \<^verbatim>\<open>
  function compileShader(type, shader) {
    let compiled = null
    let uncompiled = null
    if (isViableShader(shader)) {
      uncompiled = getViableShader(reglContext, currentState, shader)
      compiled = shaderLib.compile(`${shaderName} (${type})`, uncompiled)
      compiled = shaderLib.preprocess(compiled)
      return {compiled, uncompiled}
    }
    return null
  }
  \<close>
  \<open>shaderLib.compile\<close> does not return \<^verbatim>\<open>null\<close> here, since the name is not empty; the
  preprocessor applied to \<^verbatim>\<open>null\<close> is a type error.
\<close>

definition compileShader ::
  "externals \<Rightarrow> nat \<Rightarrow> shader \<Rightarrow> 'f \<Rightarrow> string \<Rightarrow> 'f source
     \<Rightarrow> (error + (string \<times> string option) option) \<times> shaderLib" where
  "compileShader E n sh frame type shader =
     (if isViableShader shader then
        (case getViableShader frame shader of
           Inl e \<Rightarrow> (Inl e, sh_shaderLib sh)
         | Inr uncompiled \<Rightarrow>
             (case compile E n (sh_shaderLib sh) (sh_shaderName sh @ '' ('' @ type @ '')'')
                     (case uncompiled of None \<Rightarrow> [] | Some s \<Rightarrow> s) of
                (Inl e, lib1) \<Rightarrow> (Inl e, lib1)
              | (Inr None, lib1) \<Rightarrow> (Inl TypeError, lib1)
              | (Inr (Some compiled), lib1) \<Rightarrow>
                  (Inr (Some (ShaderLib_preprocess E lib1 compiled, uncompiled)), lib1)))
      else (Inr None, sh_shaderLib sh))"

text \<open>
  \<^verbatim>\<open>
  function compileVertexShader() {
    const result = compileShader('vertex', currentState.vertexShader)
    if (result) {
      vertexShader = result.compiled
      vertexShaderUncompiled = result.uncompiled
      shaderCache[shaderLib.hash(vertexShaderUncompiled)] = vertexShader
    }
  }
  \<close>
  and the same for the fragment shader.
\<close>

definition compileVertexShader ::
  "externals \<Rightarrow> nat \<Rightarrow> shader \<Rightarrow> 'f \<Rightarrow> 'f frameState \<Rightarrow> (error + unit) \<times> shader" where
  "compileVertexShader E n sh frame currentState =
     (case compileShader E n sh frame ''vertex'' (st_vertexShader currentState) of
        (Inl e, lib1) \<Rightarrow> (Inl e, sh\<lparr>sh_shaderLib := lib1\<rparr>)
      | (Inr None, lib1) \<Rightarrow> (Inr (), sh\<lparr>sh_shaderLib := lib1\<rparr>)
      | (Inr (Some (compiled, uncompiled)), lib1) \<Rightarrow>
          (Inr (),
           sh\<lparr>sh_shaderLib := lib1,
              sh_vertexShader := Some compiled,
              sh_vertexShaderUncompiled := uncompiled,
              sh_shaderCache :=
                dv_set (propertyKey (hash uncompiled)) compiled (sh_shaderCache sh)\<rparr>))"

definition compileFragmentShader ::
  "externals \<Rightarrow> nat \<Rightarrow> shader \<Rightarrow> 'f \<Rightarrow> 'f frameState \<Rightarrow> (error + unit) \<times> shader" where
  "compileFragmentShader E n sh frame currentState =
     (case compileShader E n sh frame ''fragment'' (st_fragmentShader currentState) of
        (Inl e, lib1) \<Rightarrow> (Inl e, sh\<lparr>sh_shaderLib := lib1\<rparr>)
      | (Inr None, lib1) \<Rightarrow> (Inr (), sh\<lparr>sh_shaderLib := lib1\<rparr>)
      | (Inr (Some (compiled, uncompiled)), lib1) \<Rightarrow>
          (Inr (),
           sh\<lparr>sh_shaderLib := lib1,
              sh_fragmentShader := Some compiled,
              sh_fragmentShaderUncompiled := uncompiled,
              sh_shaderCache :=
                dv_set (propertyKey (hash uncompiled)) compiled (sh_shaderCache sh)\<rparr>))"

text \<open>
  \<^verbatim>\<open>
  function compile(reglContext, currentState) {
    const opts = { context: { ... } }
    const parentOpts = { context: { defines({defines: contextDefines}) {
      return { ...contextDefines, ...defines } } } }
    compileVertexShader()
    compileFragmentShader()
    injectParentContext = ctx.regl(parentOpts)
    if ('string' == typeof vertexShader) { opts.vert = vertexShader }
    if ('string' == typeof fragmentShader) { opts.frag = fragmentShader }
    if ('string' == typeof opts.vert || 'string' == typeof opts.frag) {
      const hash = [shaderLib.hash(opts.vert), shaderLib.hash(opts.frag)]
      .filter(Boolean).join('')
      if (null == contextCache[hash]) {
        injectContext = ctx.regl(opts)
        contextCache[hash] = injectContext
      }
    }
  }
  \<close>
  The function \<^verbatim>\<open>compile\<close> of the closure is \<open>Shader_compile\<close>.
\<close>

definition Shader_compile ::
  "externals \<Rightarrow> nat \<Rightarrow> shader \<Rightarrow> 'f \<Rightarrow> 'f frameState \<Rightarrow> (error + unit) \<times> shader" where
  "Shader_compile E n sh frame currentState =
     (case compileVertexShader E n sh frame currentState of
        (Inl e, sh1) \<Rightarrow> (Inl e, sh1)
      | (Inr u, sh1) \<Rightarrow>
          (case compileFragmentShader E n sh1 frame currentState of
             (Inl e, sh2) \<Rightarrow> (Inl e, sh2)
           | (Inr u, sh2) \<Rightarrow>
               (let sh3 = sh2\<lparr>sh_parentDefines := True\<rparr>;
                    vert = sh_vertexShader sh3;
                    frag = sh_fragmentShader sh3
                in if vert \<noteq> None \<or> frag \<noteq> None then
                     (let hash = concat (map (\<lambda>h. case h of None \<Rightarrow> [] | Some x \<Rightarrow> x)
                                           [hash vert, hash frag]);
                          injectContext = \<lparr>cmd_vert = vert, cmd_frag = frag\<rparr>
                      in if map_of (sh_contextCache sh3) hash = None then
                           (Inr (),
                            sh3\<lparr>sh_injectContext := Some injectContext,
                                sh_contextCache :=
                                  AList.update hash injectContext (sh_contextCache sh3)\<rparr>)
                         else (Inr (), sh3))
                   else (Inr (), sh3))))"

text \<open>
  \<^verbatim>\<open>
  function update(state, block, previousState) {
    injectParentContext((reglContext) => {
      let {forceCompile = false} = state
      assign(defines, { ...reglContext.defines, ...state.defines })
      if (Object.keys(defines).length) {
        if (shaderLib.preprocessor.define(defines)) {
          forceCompile = true
        }
      }
      if (forceCompile || shouldCompile(reglContext, state)) {
        compile(reglContext, state)
      }
      if ('function' == typeof injectContext) {
        injectContext(state, block)
      } else {
        block(state)
      }
    })
  }
  \<close>
  One frame tick, up to the call of the continuation. The result says whether the tick
  raised, whether it went through \<^verbatim>\<open>compile\<close> (the transition Compiling), and the
  instance after the tick. \<open>mergedDefines\<close> is the object \<^verbatim>\<open>defines\<close> after \<^verbatim>\<open>assign\<close>;
  the regl context that \<^verbatim>\<open>injectParentContext\<close> hands over has the defines of the
  enclosing scope, with those of the instance added once \<^verbatim>\<open>compile\<close> has replaced the
  command. \<open>applyDefines\<close> is the callback up to the decision: it returns whether
  \<^verbatim>\<open>define\<close> reported a change, and the instance with the merged defines.
\<close>

definition mergedDefines :: "shader \<Rightarrow> 'f reglContext \<Rightarrow> 'f frameState \<Rightarrow> (string \<times> jsval) list" where
  "mergedDefines sh context state =
     (let reglDefines = (if sh_parentDefines sh then spread (ctx_defines context) (sh_defines sh)
                         else ctx_defines context)
      in spread (sh_defines sh) (spread reglDefines (st_defines state)))"

definition applyDefines :: "shader \<Rightarrow> 'f reglContext \<Rightarrow> 'f frameState \<Rightarrow> bool \<times> shader" where
  "applyDefines sh context state =
     (let defines = mergedDefines sh context state;
          defined = (if defines \<noteq> [] then defineObject (lib_defines (sh_shaderLib sh)) defines
                     else (False, lib_defines (sh_shaderLib sh)))
      in (fst defined,
          sh\<lparr>sh_defines := defines,
             sh_shaderLib := (sh_shaderLib sh)\<lparr>lib_defines := snd defined\<rparr>\<rparr>))"

definition Shader_update ::
  "externals \<Rightarrow> nat \<Rightarrow> shader \<Rightarrow> 'f reglContext \<Rightarrow> 'f frameState
     \<Rightarrow> (error + unit) \<times> bool \<times> shader" where
  "Shader_update E n sh context state =
     (case applyDefines sh context state of
        (changed, sh1) \<Rightarrow>
          (let forceCompile = (st_forceCompile state \<or> changed)
           in if forceCompile then
                (case Shader_compile E n sh1 (ctx_frame context) state of
                   (r, sh2) \<Rightarrow> (r, True, sh2))
              else
                (case shouldCompile sh1 (ctx_frame context) state of
                   Inl e \<Rightarrow> (Inl e, False, sh1)
                 | Inr needsCompile \<Rightarrow>
                     if needsCompile then
                       (case Shader_compile E n sh1 (ctx_frame context) state of
                          (r, sh2) \<Rightarrow> (r, True, sh2))
                     else (Inr (), False, sh1))))"

text \<open>
  The instance that the constructor builds: the library has the initial defines defined,
  nothing is compiled.
\<close>

definition Shader_new :: "shaderLib \<Rightarrow> (string \<times> jsval) list \<Rightarrow> string \<Rightarrow> shader" where
  "Shader_new lib defines shaderName =
     \<lparr>sh_shaderLib = lib\<lparr>lib_defines := snd (defineObject (lib_defines lib) defines)\<rparr>,
      sh_defines = defines, sh_shaderName = shaderName, sh_parentDefines = False,
      sh_injectContext = None,
      sh_fragmentShaderUncompiled = None, sh_vertexShaderUncompiled = None,
      sh_fragmentShader = None, sh_vertexShader = None,
      sh_contextCache = [], sh_shaderCache = []\<rparr>"

text \<open>
  What a tick must leave alone when a generator raises: the compiled programs, the
  recorded uncompiled sources and the caches.
\<close>

definition compiledState ::
  "shader \<Rightarrow> string option \<times> string option \<times> string option \<times> string option \<times>
     dynamicValue \<times> (string \<times> command) list \<times> dynamicValue \<times> command option" where
  "compiledState sh =
     (sh_vertexShader sh, sh_fragmentShader sh,
      sh_vertexShaderUncompiled sh, sh_fragmentShaderUncompiled sh,
      sh_shaderCache sh, sh_contextCache sh, lib_cache (sh_shaderLib sh), sh_injectContext sh)"

text \<open>
  A source slot is unchanged in a frame when it is absent or resolves (without raising) to
  the text recorded for the slot.
\<close>

definition sourceUnchanged :: "'f \<Rightarrow> string option \<Rightarrow> 'f source \<Rightarrow> bool" where
  "sourceUnchanged frame current shader =
     (case getViableShader frame shader of
        Inl e \<Rightarrow> False
      | Inr None \<Rightarrow> True
      | Inr (Some t) \<Rightarrow> current = Some t)"

text \<open>Frames and instances for the examples.\<close>

definition frameContext :: "unit reglContext" where
  "frameContext = \<lparr>ctx_defines = [], ctx_frame = ()\<rparr>"

definition frameLiteral :: "(string \<times> jsval) list \<Rightarrow> unit frameState" where
  "frameLiteral defines =
     \<lparr>st_forceCompile = False, st_defines = defines,
      st_vertexShader = Literal ''void main() {}'',
      st_fragmentShader = Literal ''void main() { discard; }''\<rparr>"


definition shaderFresh :: shader where
  "shaderFresh = Shader_new emptyLib [] kAnonymousShaderName"

text \<open>
  An instance in the state Compiled: the fresh instance after a tick with the literal
  sources and no defines. And the same instance after one more tick that defines
  \<^verbatim>\<open>X\<close> as \<^verbatim>\<open>"1"\<close>.
\<close>

definition shaderCompiled :: shader where
  "shaderCompiled =
     \<lparr>sh_shaderLib =
        \<lparr>lib_cache =
           [(''4e0'', ''precision mediump float;\<newline>void main() {}''),
            (''835'', ''precision mediump float;\<newline>void main() { discard; }'')],
         lib_store = [], lib_version = ''100'', lib_precision = ''mediump float'',
         lib_middleware = [], lib_defines = []\<rparr>,
      sh_defines = [], sh_shaderName = ''<anonymous>'', sh_parentDefines = True,
      sh_injectContext =
        Some \<lparr>cmd_vert = Some ''precision mediump float;\<newline>void main() {}'',
              cmd_frag = Some ''precision mediump float;\<newline>void main() { discard; }''\<rparr>,
      sh_fragmentShaderUncompiled = Some ''void main() { discard; }'',
      sh_vertexShaderUncompiled = Some ''void main() {}'',
      sh_fragmentShader = Some ''precision mediump float;\<newline>void main() { discard; }'',
      sh_vertexShader = Some ''precision mediump float;\<newline>void main() {}'',
      sh_contextCache =
        [(''e38118d'',
          \<lparr>cmd_vert = Some ''precision mediump float;\<newline>void main() {}'',
           cmd_frag = Some ''precision mediump float;\<newline>void main() { discard; }''\<rparr>)],
      sh_shaderCache =
        [(''4e0'', ''precision mediump float;\<newline>void main() {}''),
         (''835'', ''precision mediump float;\<newline>void main() { discard; }'')]\<rparr>"

definition shaderDefined :: shader where
  "shaderDefined =
     shaderCompiled
       \<lparr>sh_shaderLib := (sh_shaderLib shaderCompiled)\<lparr>lib_defines := [(''X'', ''1'')]\<rparr>,
        sh_defines := [(''X'', JStr ''1'')]\<rparr>"

text \<open>The library of the end-to-end scenario of the specification.\<close>

definition libScenario :: shaderLib where
  "libScenario =
     add (add emptyLib ''a'' (''#define FOO'' @ [NL] @ ''body_a''))
       ''b'' (''#include <a>'' @ [NL] @ ''body_b'')"

text \<open>The equations that evaluate the functions above on a concrete input.\<close>

lemmas eval_simps =
  compile.simps process.simps visit.simps get.simps toString16.simps toString10.simps
  rx_removeAll.simps hash_def charCodeAt0_def hexDigit_def dv_set_def dv_get_def dv_unset_def
  NL_def CR_def TAB_def DQ_def SQ_def isSpace_def isDot_def isLower_def isUpper_def trim_def
  rx_at_def group_def dirname_def extname_def path_resolve_def glslTokensToString_def
  kDefaultShaderLibPrecision_def kDefaultShaderLibVersion_def kAnonymousShaderName_def
  shaderNameRegex_def injectShaderNameDefine_def precisionRegex_def injectShaderPrecision_def
  add_def resolve_def propertyKey_def truthy_def directiveRegex_def defineRegex_def kvRegex_def
  includeRegex_def pathRegex_def directive_def defineDirective_def createError_def
  unexpected_def includeDirective_def prefixed_def isWordChar_def nextToken_def
  refTokenize_def refInjectDefines_def refPrepr_def refExternals_def emptyLib_def spread_def
  ShaderLib_preprocess_def getViableShader_def isViableShader_def checkShader_def
  shouldCompile_def compileShader_def compileVertexShader_def compileFragmentShader_def
  Shader_compile_def mergedDefines_def applyDefines_def Shader_update_def Shader_new_def
  compiledState_def sourceUnchanged_def defineObject_def define_def Let_def

section \<open>Properties of the hash\<close>

lemma foldl_plus_sum_list: "foldl (\<lambda>a b. a + b) (k::nat) xs = k + sum_list xs"
  by (induction xs arbitrary: k) simp_all

lemma hash_Some_sum: "hash (Some s) = Some (toString16 (sum_list (map charCodeAt0 s)))"
  by (simp add: hash_def foldl_plus_sum_list)

lemma sum_list_mset_cong:
  fixes f :: "'a \<Rightarrow> nat"
  assumes "mset xs = mset ys"
  shows "sum_list (map f xs) = sum_list (map f ys)"
proof -
  have "sum_mset (image_mset f (mset xs)) = sum_mset (image_mset f (mset ys))"
    using assms by simp
  then show ?thesis
    by (simp add: sum_mset_sum_list flip: mset_map)
qed

text \<open>
  C8. The hash only depends on the multiset of the characters of its argument: two strings
  that are permutations of each other have the same hash, and there are two different
  strings made of the same characters in a different order whose hashes are equal.
\<close>

theorem hash_anagram:
  "(mset s = mset t \<longrightarrow> hash (Some s) = hash (Some t)) \<and>
   (\<exists>a b. a \<noteq> b \<and> mset a = mset b \<and> hash (Some a) = hash (Some b))"
proof
  show "mset s = mset t \<longrightarrow> hash (Some s) = hash (Some t)"
  proof
    assume "mset s = mset t"
    then have "sum_list (map charCodeAt0 s) = sum_list (map charCodeAt0 t)"
      by (rule sum_list_mset_cong)
    then show "hash (Some s) = hash (Some t)"
      by (simp only: hash_Some_sum)
  qed
next
  have 1: "''ab'' \<noteq> ''ba''" by simp
  have 2: "mset ''ab'' = mset ''ba''" by (simp add: add_mset_commute)
  have 3: "hash (Some ''ab'') = hash (Some ''ba'')"
    by (simp add: hash_Some_sum charCodeAt0_def)
  show "\<exists>a b. a \<noteq> b \<and> mset a = mset b \<and> hash (Some a) = hash (Some b)"
    by (rule exI [of _ "''ab''"], rule exI [of _ "''ba''"]) (intro conjI 1 2 3)
qed

theorem hash_anagram_witness:
  "mset ''void'' = mset ''diov'' \<and> hash (Some ''void'') = hash (Some ''diov'')"
proof -
  have m: "mset ''void'' = mset ''diov''"
    by (simp add: add_mset_commute)
  from hash_anagram [of "''void''" "''diov''"] have
    "mset ''void'' = mset ''diov'' \<longrightarrow> hash (Some ''void'') = hash (Some ''diov'')"
    by (rule conjunct1)
  with m show ?thesis by (simp only: simp_thms)
qed

section \<open>Properties of define\<close>

lemma String_js_one: "String_js (JNum 1) = ''1''"
  by (simp add: toString10.simps hexDigit_def)

lemma String_js_zero: "String_js (JNum 0) = ''0''"
  by (simp add: toString10.simps hexDigit_def)

lemma define_JBool:
  "define t k (JBool b) =
     (if map_of t k = Some (coerced (JBool b)) then (False, t)
      else (True, AList.update k (coerced (JBool b)) t))"
  by (cases b)
     (auto simp add: define_def coerced_def dv_get_def dv_set_def String_js_one String_js_zero
         simp del: String_js.simps)

lemma define_JNum:
  "define t k (JNum n) =
     (if map_of t k = Some (coerced (JNum n)) then (False, t)
      else (True, AList.update k (coerced (JNum n)) t))"
  by (auto simp add: define_def coerced_def dv_get_def dv_set_def Let_def
      simp del: String_js.simps)

lemma define_JStr:
  "define t k (JStr x) =
     (if map_of t k = Some (coerced (JStr x)) then (False, t)
      else (True, AList.update k (coerced (JStr x)) t))"
  by (auto simp add: define_def coerced_def dv_get_def dv_set_def Let_def)

lemma define_null: "v = JNull \<or> v = JUndefined \<Longrightarrow> define t k v = (False, t)"
  by (auto simp: define_def)

lemma define_cases:
  "define t k v =
     (if non_null v \<and> map_of t k \<noteq> Some (coerced v)
      then (True, AList.update k (coerced v) t) else (False, t))"
proof (cases v)
  case JUndefined
  then show ?thesis by (simp add: define_null non_null_def)
next
  case JNull
  then show ?thesis by (simp add: define_null non_null_def)
next
  case (JBool b)
  then show ?thesis by (simp add: define_JBool non_null_def)
next
  case (JNum n)
  then show ?thesis by (simp add: define_JNum non_null_def)
next
  case (JStr x)
  then show ?thesis by (simp add: define_JStr non_null_def)
qed

lemma map_of_define:
  "map_of (snd (define t k v)) k' =
     (if k' = k \<and> non_null v then Some (coerced v) else map_of t k')"
  by (auto simp: define_cases update_conv')

lemma fst_define_other:
  "k' \<noteq> k \<Longrightarrow> fst (define (snd (define t k v)) k' v') = fst (define t k' v')"
  by (simp add: define_cases [of _ k' v'] map_of_define)

lemma define_map_Cons:
  "define t k v = (r, t1) \<Longrightarrow>
   define_map t ((k, v) # kvs) = (r # fst (define_map t1 kvs), snd (define_map t1 kvs))"
  by (simp add: case_prod_unfold)

lemma define_map_results:
  "distinct (map fst kvs) \<Longrightarrow>
   fst (define_map t kvs) = map (\<lambda>(k, v). fst (define t k v)) kvs"
proof (induction kvs arbitrary: t)
  case Nil
  then show ?case by simp
next
  case (Cons kv kvs)
  obtain k v where kv: "kv = (k, v)" by (cases kv)
  obtain r t1 where d: "define t k v = (r, t1)" by (cases "define t k v")
  have t1: "t1 = snd (define t k v)" and r: "r = fst (define t k v)"
    using d by simp_all
  have "fst (define_map t1 kvs) = map (\<lambda>(k, v). fst (define t1 k v)) kvs"
    using Cons by simp
  also have "\<dots> = map (\<lambda>(k, v). fst (define t k v)) kvs"
  proof (rule map_cong [OF refl])
    fix x assume x: "x \<in> set kvs"
    obtain k' v' where x': "x = (k', v')" by (cases x)
    have "k' \<noteq> k" using Cons.prems x kv x' by force
    then show "(case x of (k, v) \<Rightarrow> fst (define t1 k v)) = (case x of (k, v) \<Rightarrow> fst (define t k v))"
      unfolding x' t1 by (simp add: fst_define_other)
  qed
  finally have "fst (define_map t1 kvs) = map (\<lambda>(k, v). fst (define t k v)) kvs" .
  then show ?case
    unfolding kv define_map_Cons [OF d] by (simp add: r)
qed

lemma define_map_table:
  "distinct (map fst kvs) \<Longrightarrow>
   map_of (snd (define_map t kvs)) k =
     (case map_of kvs k of
        Some v \<Rightarrow> if non_null v then Some (coerced v) else map_of t k
      | None \<Rightarrow> map_of t k)"
proof (induction kvs arbitrary: t)
  case Nil
  then show ?case by simp
next
  case (Cons kv kvs)
  obtain k0 v0 where kv: "kv = (k0, v0)" by (cases kv)
  obtain r t1 where d: "define t k0 v0 = (r, t1)" by (cases "define t k0 v0")
  have m1: "map_of t1 k = (if k = k0 \<and> non_null v0 then Some (coerced v0) else map_of t k)"
    using map_of_define [of t k0 v0 k] by (simp add: d)
  have IH: "map_of (snd (define_map t1 kvs)) k =
     (case map_of kvs k of
        Some v \<Rightarrow> if non_null v then Some (coerced v) else map_of t1 k
      | None \<Rightarrow> map_of t1 k)"
    using Cons by simp
  have notin: "map_of kvs k0 = None"
    using Cons.prems kv by (simp add: map_of_eq_None_iff)
  show ?case
  proof (cases "k = k0")
    case True
    then show ?thesis
      unfolding kv define_map_Cons [OF d] using IH notin m1 by simp
  next
    case False
    then show ?thesis
      unfolding kv define_map_Cons [OF d] using IH m1 by (simp split: option.splits)
  qed
qed

text \<open>
  C7, as amended. For a value other than \<^verbatim>\<open>null\<close> and \<^verbatim>\<open>undefined\<close>, \<open>define\<close> coerces
  it (a boolean to \<^verbatim>\<open>"1"\<close> or \<^verbatim>\<open>"0"\<close>, anything else to its string), returns true and
  stores the coerced value exactly when it differs from the value stored under the name,
  and returns false with the table unchanged when it equals the stored value. For \<^verbatim>\<open>null\<close>
  and \<^verbatim>\<open>undefined\<close> it returns false and leaves the table unchanged. \<open>define\<close> on a map
  applies every entry and returns true iff at least one entry changed.
\<close>

theorem define_changed:
  "(non_null v \<and> map_of t k \<noteq> Some (coerced v) \<longrightarrow>
      fst (define t k v) \<and> map_of (snd (define t k v)) = (map_of t)(k \<mapsto> coerced v)) \<and>
   (non_null v \<and> map_of t k = Some (coerced v) \<longrightarrow> define t k v = (False, t)) \<and>
   (\<not> non_null v \<longrightarrow> define t k v = (False, t)) \<and>
   (distinct (map fst kvs) \<longrightarrow>
      (fst (defineObject t kvs) \<longleftrightarrow> (\<exists>(k', v') \<in> set kvs. fst (define t k' v'))) \<and>
      (\<forall>k'. map_of (snd (defineObject t kvs)) k' =
         (case map_of kvs k' of
            Some v' \<Rightarrow> if non_null v' then Some (coerced v') else map_of t k'
          | None \<Rightarrow> map_of t k')))"
proof (intro conjI impI allI)
  assume a: "non_null v \<and> map_of t k \<noteq> Some (coerced v)"
  then show "fst (define t k v)" by (simp add: define_cases)
  show "map_of (snd (define t k v)) = (map_of t)(k \<mapsto> coerced v)"
    using a by (intro ext) (simp add: map_of_define)
next
  assume "non_null v \<and> map_of t k = Some (coerced v)"
  then show "define t k v = (False, t)" by (simp add: define_cases)
next
  assume "\<not> non_null v"
  then show "define t k v = (False, t)" by (simp add: define_cases)
next
  assume d: "distinct (map fst kvs)"
  have "fst (defineObject t kvs) = list_ex (\<lambda>v. v = True) (fst (define_map t kvs))"
    by (simp add: defineObject_def split: prod.splits)
  then show "fst (defineObject t kvs) \<longleftrightarrow> (\<exists>(k', v') \<in> set kvs. fst (define t k' v'))"
    by (simp add: define_map_results [OF d] list_ex_iff split_beta)
next
  fix k'
  assume d: "distinct (map fst kvs)"
  have "snd (defineObject t kvs) = snd (define_map t kvs)"
    by (simp add: defineObject_def split: prod.splits)
  then show "map_of (snd (defineObject t kvs)) k' =
         (case map_of kvs k' of
            Some v' \<Rightarrow> if non_null v' then Some (coerced v') else map_of t k'
          | None \<Rightarrow> map_of t k')"
    by (simp add: define_map_table [OF d])
qed

theorem define_changed_witness:
  "(fst (define [(''X'', ''0'')] ''X'' (JBool True)) \<and>
    map_of (snd (define [(''X'', ''0'')] ''X'' (JBool True))) =
      (map_of [(''X'', ''0'')])(''X'' \<mapsto> ''1'')) \<and>
   define [(''X'', ''1'')] ''X'' (JBool True) = (False, [(''X'', ''1'')]) \<and>
   define [(''X'', ''1'')] ''X'' JNull = (False, [(''X'', ''1'')]) \<and>
   fst (defineObject [(''X'', ''1'')] [(''X'', JBool True), (''Y'', JStr ''2'')])"
proof -
  let ?kvs = "[(''X'', JBool True), (''Y'', JStr ''2'')]"
  have c: "coerced (JBool True) = ''1''"
    by (simp add: coerced_def)
  have h1: "non_null (JBool True) \<and> map_of [(''X'', ''0'')] ''X'' \<noteq> Some (coerced (JBool True))"
    by (simp add: non_null_def c)
  have h2: "non_null (JBool True) \<and> map_of [(''X'', ''1'')] ''X'' = Some (coerced (JBool True))"
    by (simp add: non_null_def c)
  have h3: "\<not> non_null JNull"
    by (simp add: non_null_def)
  have h4: "distinct (map fst ?kvs)"
    by simp
  have e: "\<exists>(k', v') \<in> set ?kvs. fst (define [(''X'', ''1'')] k' v')"
    by (rule bexI [of _ "(''Y'', JStr ''2'')"]) (simp_all add: define_JStr coerced_def)
  note T1 = define_changed [where v = "JBool True" and t = "[(''X'', ''0'')]" and k = "''X''"
      and kvs = "[]"]
  note T2 = define_changed [where v = "JBool True" and t = "[(''X'', ''1'')]" and k = "''X''"
      and kvs = "?kvs"]
  note T3 = define_changed [where v = "JNull" and t = "[(''X'', ''1'')]" and k = "''X''"
      and kvs = "[]"]
  have r1: "fst (define [(''X'', ''0'')] ''X'' (JBool True)) \<and>
    map_of (snd (define [(''X'', ''0'')] ''X'' (JBool True))) =
      (map_of [(''X'', ''0'')])(''X'' \<mapsto> coerced (JBool True))"
    using T1 [THEN conjunct1] h1 by (rule mp)
  have r2: "define [(''X'', ''1'')] ''X'' (JBool True) = (False, [(''X'', ''1'')])"
    using T2 [THEN conjunct2, THEN conjunct1] h2 by (rule mp)
  have r3: "define [(''X'', ''1'')] ''X'' JNull = (False, [(''X'', ''1'')])"
    using T3 [THEN conjunct2, THEN conjunct2, THEN conjunct1] h3 by (rule mp)
  have "fst (defineObject [(''X'', ''1'')] ?kvs) \<longleftrightarrow>
      (\<exists>(k', v') \<in> set ?kvs. fst (define [(''X'', ''1'')] k' v'))"
    using T2 [THEN conjunct2, THEN conjunct2, THEN conjunct2, THEN mp, OF h4]
    by (rule conjunct1)
  with e have r4: "fst (defineObject [(''X'', ''1'')] ?kvs)"
    by (rule iffD2 [rotated])
  from r1 r2 r3 r4 show ?thesis
    unfolding c by (intro conjI) (rule conjunct1, assumption, rule conjunct2, assumption+)
qed

text \<open>
  The claim as it was stated fails at \<^verbatim>\<open>define("X", null)\<close> on an empty table: the
  string of \<^verbatim>\<open>null\<close> differs from the (absent) stored value, the call returns false and
  stores nothing.
\<close>

theorem define_null_counterexample:
  "map_of [] ''X'' \<noteq> Some (coerced JNull) \<and> define [] ''X'' JNull = (False, [])"
  by (simp add: define_null)

section \<open>Properties of compile\<close>

lemma compile_fallback:
  "name \<noteq> [] \<Longrightarrow> compile E n lib name [] = compile E n lib kAnonymousShaderName name"
  by (simp add: compile.simps Let_def kAnonymousShaderName_def)

lemma compile_not_null:
  assumes "source \<noteq> []" and "compile E n lib name source = (Inr r, lib')"
  shows "r \<noteq> None"
  using assms
  by (subst (asm) compile.simps)
     (auto simp: Let_def truthy_def split: if_splits prod.splits sum.splits option.splits)

lemma get_stored:
  "dv_get (lib_store lib) path = Some source \<Longrightarrow> get E n lib path = compile E n lib path source"
  by (simp add: get.simps)


lemma dv_get_set: "dv_get (dv_set k v dv) k' = (if k' = k then Some v else dv_get dv k')"
  by (simp add: dv_get_def dv_set_def update_conv')

lemma split_Cons: "c \<noteq> sep \<Longrightarrow> \<exists>l ls. split sep (c # s) = (c # l) # ls"
  by (cases "split sep s") auto

lemma join_Cons_nonempty: "x \<noteq> [] \<Longrightarrow> join sep (x # xs) \<noteq> []"
  by (cases xs) auto

lemma assemble_nonempty:
  assumes "c \<noteq> NL"
  shows "join [NL] (map (\<lambda>line. if length line = 1 then line @ [NL] else line)
           (filter (\<lambda>line. line \<noteq> []) (split NL (c # s)))) \<noteq> []"
proof -
  obtain l ls where "split NL (c # s) = (c # l) # ls"
    using split_Cons [OF assms] by blast
  then show ?thesis
    by (simp add: join_Cons_nonempty)
qed

lemma injectShaderPrecision_Cons:
  "\<exists>s. injectShaderPrecision lib source = CHR ''p'' # s"
  by (simp add: injectShaderPrecision_def Let_def)

lemma compile_hit:
  assumes "source \<noteq> []"
    and "dv_get (lib_cache lib) (propertyKey (hash (Some source))) = Some t" and "t \<noteq> []"
  shows "compile E n lib name source = (Inr (Some t), lib)"
  using assms by (simp add: compile.simps Let_def truthy_def)

lemma compile_caches:
  assumes "source \<noteq> []" and "compile E n lib name source = (Inr (Some out), lib')"
  shows "\<exists>t. t \<noteq> [] \<and> dv_get (lib_cache lib') (propertyKey (hash (Some source))) = Some t \<and>
             (if truthy (dv_get (lib_cache lib) (propertyKey (hash (Some source))))
              then out = t \<and> lib' = lib else out = t @ [NL])"
proof (cases "truthy (dv_get (lib_cache lib) (propertyKey (hash (Some source))))")
  case True
  then show ?thesis
    using assms by (auto simp: compile.simps Let_def truthy_def split: option.splits)
next
  case False
  obtain r lib1 where p: "process E n lib (if name = [] then kAnonymousShaderName else name)
      (injectShaderNameDefine (if name = [] then kAnonymousShaderName else name) source) = (r, lib1)"
    by (cases "process E n lib (if name = [] then kAnonymousShaderName else name)
      (injectShaderNameDefine (if name = [] then kAnonymousShaderName else name) source)")
  from assms False p obtain source2 where r: "r = Inr source2"
    by (cases r) (auto simp: compile.simps Let_def)
  obtain s where s: "injectShaderPrecision lib1 source2 = CHR ''p'' # s"
    using injectShaderPrecision_Cons by blast
  let ?t = "join [NL] (map (\<lambda>line. if length line = 1 then line @ [NL] else line)
           (filter (\<lambda>line. line \<noteq> []) (split NL (CHR ''p'' # s))))"
  have ne: "?t \<noteq> []"
    by (rule assemble_nonempty) (simp add: NL_def)
  from assms False p r s have "out = ?t @ [NL]"
    and "lib' = lib1\<lparr>lib_cache := dv_set (propertyKey (hash (Some source))) ?t (lib_cache lib1)\<rparr>"
    by (auto simp: compile.simps Let_def)
  with ne False show ?thesis
    by (simp add: dv_get_set)
qed

text \<open>
  C10. With a name that is not empty and the empty source, \<open>compile\<close> takes the name for
  the source and compiles it as an anonymous shader. So for a fragment registered with the
  empty source (at a path that is not empty), \<open>get\<close> returns the compilation of the path
  string itself, and never the not-found signal \<^verbatim>\<open>null\<close>.
\<close>

theorem compile_empty_source:
  "(name \<noteq> [] \<longrightarrow> compile E n lib name [] = compile E n lib kAnonymousShaderName name) \<and>
   (path \<noteq> [] \<and> dv_get (lib_store lib) path = Some [] \<longrightarrow>
      get E n lib path = compile E n lib kAnonymousShaderName path \<and>
      (\<forall>r lib'. get E n lib path = (Inr r, lib') \<longrightarrow> r \<noteq> None))"
proof (intro conjI impI allI)
  assume "name \<noteq> []"
  then show "compile E n lib name [] = compile E n lib kAnonymousShaderName name"
    by (rule compile_fallback)
next
  assume a: "path \<noteq> [] \<and> dv_get (lib_store lib) path = Some []"
  then show g: "get E n lib path = compile E n lib kAnonymousShaderName path"
    by (simp add: get_stored compile_fallback)
  fix r lib'
  assume "get E n lib path = (Inr r, lib')"
  with g have "compile E n lib kAnonymousShaderName path = (Inr r, lib')"
    by simp
  with a show "r \<noteq> None"
    using compile_not_null by blast
qed

theorem compile_empty_source_witness:
  "''foo'' \<noteq> [] \<and> dv_get (lib_store libEmptyFragment) ''foo'' = Some [] \<and>
   compile refExternals 0 libEmptyFragment ''foo'' [] =
     compile refExternals 0 libEmptyFragment kAnonymousShaderName ''foo'' \<and>
   get refExternals 0 libEmptyFragment ''foo'' =
     compile refExternals 0 libEmptyFragment kAnonymousShaderName ''foo'' \<and>
   fst (compile refExternals 0 libEmptyFragment kAnonymousShaderName ''foo'') =
     Inr (Some (''precision mediump float;'' @ [NL] @ ''foo'' @ [NL]))"
proof -
  have h1: "''foo'' \<noteq> []" by simp
  have h2: "dv_get (lib_store libEmptyFragment) ''foo'' = Some []"
    by code_simp
  note T = compile_empty_source [where name = "''foo''" and path = "''foo''"
      and lib = libEmptyFragment and E = refExternals and n = 0]
  have r1: "compile refExternals 0 libEmptyFragment ''foo'' [] =
     compile refExternals 0 libEmptyFragment kAnonymousShaderName ''foo''"
    using T [THEN conjunct1] h1 by (rule mp)
  have "get refExternals 0 libEmptyFragment ''foo'' =
     compile refExternals 0 libEmptyFragment kAnonymousShaderName ''foo'' \<and>
      (\<forall>r lib'. get refExternals 0 libEmptyFragment ''foo'' = (Inr r, lib') \<longrightarrow> r \<noteq> None)"
    using T [THEN conjunct2] conjI [OF h1 h2] by (rule mp)
  then have r2: "get refExternals 0 libEmptyFragment ''foo'' =
     compile refExternals 0 libEmptyFragment kAnonymousShaderName ''foo''"
    by (rule conjunct1)
  have r3: "fst (compile refExternals 0 libEmptyFragment kAnonymousShaderName ''foo'') =
     Inr (Some (''precision mediump float;'' @ [NL] @ ''foo'' @ [NL]))"
    by code_simp
  from h1 h2 r1 r2 r3 show ?thesis
    by (intro conjI)
qed

text \<open>
  C6. With the fragments \<^verbatim>\<open>a\<close> and \<^verbatim>\<open>b\<close> of the scenario in the store, the compilation of
  \<^verbatim>\<open>#include <b>\<close> under the name \<^verbatim>\<open>root\<close> returns the four lines: the precision
  declaration, \<^verbatim>\<open>#define FOO 1\<close>, \<^verbatim>\<open>body_a\<close> and \<^verbatim>\<open>body_b\<close>, in this order, each ended
  by a line feed: one precision line and no blank line.
\<close>

theorem compile_scenario:
  "fst (compile refExternals 2 libScenario ''root'' ''#include <b>'') =
     Inr (Some (''precision mediump float;'' @ [NL] @ ''#define FOO 1'' @ [NL] @
                ''body_a'' @ [NL] @ ''body_b'' @ [NL])) \<and>
   split NL (''precision mediump float;'' @ [NL] @ ''#define FOO 1'' @ [NL] @
             ''body_a'' @ [NL] @ ''body_b'' @ [NL]) =
     [''precision mediump float;'', ''#define FOO 1'', ''body_a'', ''body_b'', []]"
  by code_simp

text \<open>
  C2, as amended. The cache key of \<open>compile\<close> is the hash of the source text alone, taken
  before the name is looked at, so it does not depend on the name of the shader: once a
  source text has been compiled under one name, its compilation under any other name is
  served from the entry that the first one stored, and the library is not changed. The
  name is not part of the hashed text.
\<close>

theorem compile_key_ignores_name:
  assumes "source \<noteq> []" and "compile E n lib name1 source = (Inr (Some out), lib')"
  shows "\<exists>t. t \<noteq> [] \<and>
             dv_get (lib_cache lib') (propertyKey (hash (Some source))) = Some t \<and>
             compile E n' lib' name2 source = (Inr (Some t), lib')"
proof -
  from compile_caches [OF assms] obtain t where
    t: "t \<noteq> []" "dv_get (lib_cache lib') (propertyKey (hash (Some source))) = Some t"
    by blast
  have "compile E n' lib' name2 source = (Inr (Some t), lib')"
    using assms(1) t(2) t(1) by (rule compile_hit)
  with t show ?thesis by blast
qed

lemma compile_body_A:
  "fst (compile refExternals 0 emptyLib ''shaderA'' ''body'') =
     Inr (Some (''precision mediump float;'' @ [NL] @ ''body'' @ [NL]))"
  by code_simp

theorem compile_key_ignores_name_witness:
  "''body'' \<noteq> [] \<and>
   compile refExternals 0 emptyLib ''shaderA'' ''body'' =
     (Inr (Some (''precision mediump float;'' @ [NL] @ ''body'' @ [NL])),
      snd (compile refExternals 0 emptyLib ''shaderA'' ''body'')) \<and>
   (\<exists>t. t \<noteq> [] \<and>
        dv_get (lib_cache (snd (compile refExternals 0 emptyLib ''shaderA'' ''body'')))
          (propertyKey (hash (Some ''body''))) = Some t \<and>
        compile refExternals 0 (snd (compile refExternals 0 emptyLib ''shaderA'' ''body''))
          ''shaderB'' ''body'' =
          (Inr (Some t), snd (compile refExternals 0 emptyLib ''shaderA'' ''body'')))"
proof -
  have h1: "''body'' \<noteq> []" by simp
  have h2: "compile refExternals 0 emptyLib ''shaderA'' ''body'' =
     (Inr (Some (''precision mediump float;'' @ [NL] @ ''body'' @ [NL])),
      snd (compile refExternals 0 emptyLib ''shaderA'' ''body''))"
    using compile_body_A by (metis prod.collapse)
  from compile_key_ignores_name [OF h1 h2, of 0 "''shaderB''"] h1 h2 show ?thesis
    by (intro conjI)
qed

text \<open>
  The claim as it was stated fails for the names \<^verbatim>\<open>shaderA\<close> and \<^verbatim>\<open>shaderB\<close> and the
  source \<^verbatim>\<open>body\<close>: the key is the hash of \<^verbatim>\<open>body\<close>, the second compilation returns the
  text cached by the first, and the cache holds one entry after both.
\<close>

theorem compile_names_share_entry:
  "hash (Some ''body'') = Some ''1ae'' \<and>
   lib_cache (snd (compile refExternals 0 emptyLib ''shaderA'' ''body'')) =
     [(''1ae'', ''precision mediump float;'' @ [NL] @ ''body'')] \<and>
   fst (compile refExternals 0 (snd (compile refExternals 0 emptyLib ''shaderA'' ''body''))
          ''shaderB'' ''body'') =
     Inr (Some (''precision mediump float;'' @ [NL] @ ''body'')) \<and>
   lib_cache (snd (compile refExternals 0 (snd (compile refExternals 0 emptyLib ''shaderA'' ''body''))
          ''shaderB'' ''body'')) =
     [(''1ae'', ''precision mediump float;'' @ [NL] @ ''body'')]"
  by code_simp

text \<open>
  C1. Two calls of \<open>compile\<close> with the same name and source do not return the same text:
  the first call, which fills the cache, returns the text with a line feed at its end, and
  the second call, served from the cache, returns the cached text, which has none.
\<close>

theorem compile_twice_differs:
  "fst (compile refExternals 0 emptyLib ''root'' ''void main() {}'') =
     Inr (Some (''precision mediump float;'' @ [NL] @ ''void main() {}'' @ [NL])) \<and>
   fst (compile refExternals 0 (snd (compile refExternals 0 emptyLib ''root'' ''void main() {}''))
          ''root'' ''void main() {}'') =
     Inr (Some (''precision mediump float;'' @ [NL] @ ''void main() {}''))"
  by code_simp

section \<open>Properties of the directive walker\<close>
















section \<open>Properties of the shader instance\<close>



















lemma shaderCompiled_reached:
  "Shader_update refExternals 0 shaderFresh frameContext (frameLiteral []) =
     (Inr (), True, shaderCompiled)"
  by (simp add: eval_simps shaderFresh_def frameContext_def frameLiteral_def shaderCompiled_def
      cong: if_weak_cong prod.case_cong_weak sum.case_cong_weak option.case_cong_weak
        list.case_cong_weak nat.case_cong_weak)

lemma shaderDefined_reached:
  "Shader_update refExternals 0 shaderCompiled frameContext (frameLiteral [(''X'', JStr ''1'')]) =
     (Inr (), True, shaderDefined)"
  by (simp add: eval_simps frameContext_def frameLiteral_def shaderCompiled_def shaderDefined_def
      cong: if_weak_cong prod.case_cong_weak sum.case_cong_weak option.case_cong_weak
        list.case_cong_weak nat.case_cong_weak)






end
